theory Spec2Isabelle
  imports Main
begin

section \<open>Data model of \<open>torchdata/dataloader2/utils/worker.py\<close>\<close>

text \<open>
  The two frozen dataclasses of the module. Python integers are unbounded, so every
  field is an \<open>int\<close>. The defaults of \<open>_DistInfo\<close> (\<open>world_size = 1\<close>, \<open>rank = 0\<close>)
  belong to its constructor; a call that leaves them out is the record with those values.
\<close>

record WorkerInfo =
  num_workers :: int
  worker_id :: int

record DistInfo =
  shared_seed :: int
  world_size :: int
  rank :: int

text \<open>
  The classes that the module names: the two pipe base classes of the \<open>isinstance\<close>
  checks and the two marker classes that \<open>find_dps\<close> is asked for.
\<close>

datatype pyclass = IterDataPipe | MapDataPipe | DummyIterDataPipe | IterateQueueDataPipes

datatype SHARDING_PRIORITIES = DEFAULT | DISTRIBUTED | MULTIPROCESSING

datatype dtype = int64 | int32

text \<open>
  The graph that \<open>traverse_dps\<close> returns is a dictionary from an id to a pair of a
  DataPipe and the graph of its sources. Dictionaries keep insertion order, and line 99
  (\<open>list(graph.values())[0][0]\<close>) reads the first entry, so the entries are a list.
\<close>

datatype 'dp DataPipeGraph = DataPipeGraph "(int \<times> 'dp \<times> 'dp DataPipeGraph) list"

text \<open>
  Lines 94 to 96 build the client of the queue protocol from the two optional queues
  and wrap it.
\<close>

datatype 'q protocol_client = IterDataPipeQueueProtocolClient "'q option" "'q option"

datatype 'q queue_wrapper = QueueWrapper "'q protocol_client"

text \<open>
  Every \<open>assert\<close> of the module is an error value that carries the source line of the
  assertion; line 99 indexes a list and raises \<open>IndexError\<close> on an empty one.
\<close>

datatype error = AssertionError nat | IndexError

text \<open>
  The module is glue: what it does is the sequence of calls it makes into its
  collaborators. Each call with an effect is an event, in the order of the calls.
  \<open>ResetEpoch dp di\<close> is \<open>dp.reset_epoch(partial(dispatch_process_reset_fn, dist_info=di))\<close>;
  \<open>ApplyRandomSeed dp g\<close> carries the state \<open>g\<close> of the generator that is handed over.
\<close>

datatype ('dp, 'g) event =
    ApplySharding 'dp int int SHARDING_PRIORITIES
  | ReplaceDp 'dp 'dp
  | ResetEpoch 'dp DistInfo
  | GeneratorManualSeed int
  | ApplyRandomSeed 'dp 'g
  | RandomSeed int
  | TorchManualSeed int
  | NumpyRandomSeed int

text \<open>
  The collaborators are not part of the module: the graph functions of
  \<open>torchdata.dataloader2.graph\<close> and \<open>torchdata.dataloader2.utils\<close>, the generator of
  \<open>torch\<close>, and the flag \<open>HAS_NUMPY\<close> that the import at the top of the module sets.
  They are parameters of the model. \<open>'dp\<close> is the type of Python objects that can be
  passed as a DataPipe, \<open>'q\<close> of queues, \<open>'g\<close> of generator states.
  \<open>new_IterateQueueDataPipes\<close> is the constructor \<open>communication.iter._IterateQueueDataPipes\<close>,
  \<open>Generator\<close> the state of a fresh \<open>torch.Generator()\<close>, and \<open>apply_random_seed\<close> gives
  the state in which \<open>graph_settings.apply_random_seed\<close> leaves the generator.
  A collaborator is taken to return; an exception raised inside one is outside the model.
\<close>

record ('dp, 'q, 'g) collaborators =
  traverse_dps :: "'dp \<Rightarrow> 'dp DataPipeGraph"
  find_dps :: "'dp DataPipeGraph \<Rightarrow> pyclass \<Rightarrow> 'dp list"
  find_replicable_branches :: "'dp DataPipeGraph \<Rightarrow> 'dp list"
  replace_dp :: "'dp DataPipeGraph \<Rightarrow> 'dp \<Rightarrow> 'dp \<Rightarrow> 'dp DataPipeGraph"
  new_IterateQueueDataPipes :: "'q queue_wrapper list \<Rightarrow> 'dp"
  isinstance :: "'dp \<Rightarrow> pyclass \<Rightarrow> bool"
  Generator :: "'g"
  manual_seed :: "'g \<Rightarrow> int \<Rightarrow> 'g"
  generate_random_int :: "'g \<Rightarrow> dtype \<Rightarrow> int \<times> 'g"
  apply_random_seed :: "'dp \<Rightarrow> 'g \<Rightarrow> 'g"
  HAS_NUMPY :: bool

section \<open>The functions of the module\<close>

text \<open>
  Every function returns its result (an error or a value) together with the events it
  caused, so that the events before a failing assertion are kept.
\<close>

definition process_init_fn ::
  "('dp, 'q, 'g) collaborators \<Rightarrow> 'dp \<Rightarrow> WorkerInfo \<Rightarrow> ('dp \<Rightarrow> WorkerInfo \<Rightarrow> 'dp) option
     \<Rightarrow> 'q option \<Rightarrow> 'q option \<Rightarrow> (error + 'dp) \<times> ('dp, 'g) event list" where
  "process_init_fn env datapipe worker_info custom_init_fn dispatching_req_queue dispatching_res_queue =
    (let graph = traverse_dps env datapipe;
         non_replicable_dp = find_dps env graph DummyIterDataPipe;
         sharded =
           (if length non_replicable_dp = 0 then
              (let tr = [ApplySharding datapipe (num_workers worker_info) (worker_id worker_info)
                           MULTIPROCESSING]
               in if dispatching_req_queue = None \<and> dispatching_res_queue = None
                  then (Inr datapipe, tr)
                  else (Inl (AssertionError 81), tr))
            else if length non_replicable_dp \<noteq> 1 then (Inl (AssertionError 86), [])
            else if dispatching_req_queue = None \<and> dispatching_res_queue = None
              then (Inl (AssertionError 87), [])
            else
              (let replicable_branches = find_replicable_branches env graph;
                   tr = map (\<lambda>dp. ApplySharding dp (num_workers worker_info)
                                     (worker_id worker_info) MULTIPROCESSING)
                          replicable_branches;
                   queue_wrapper = QueueWrapper
                     (IterDataPipeQueueProtocolClient dispatching_req_queue dispatching_res_queue);
                   dispatch_process_dp = new_IterateQueueDataPipes env [queue_wrapper];
                   tr = tr @ [ReplaceDp (non_replicable_dp ! 0) dispatch_process_dp]
               in case replace_dp env graph (non_replicable_dp ! 0) dispatch_process_dp of
                    DataPipeGraph [] \<Rightarrow> (Inl IndexError, tr)
                  | DataPipeGraph ((k, dp, src) # rest) \<Rightarrow> (Inr dp, tr)))
     in case sharded of
          (Inl e, tr) \<Rightarrow> (Inl e, tr)
        | (Inr datapipe, tr) \<Rightarrow>
            (case custom_init_fn of
               None \<Rightarrow> (Inr datapipe, tr)
             | Some f \<Rightarrow>
                 (let datapipe = f datapipe worker_info
                  in if isinstance env datapipe IterDataPipe \<or> isinstance env datapipe MapDataPipe
                     then (Inr datapipe, tr)
                     else (Inl (AssertionError 103), tr))))"

text \<open>
  \<open>_set_global_random_state\<close> draws from the generator and seeds \<open>random\<close>, \<open>torch\<close>
  and, when present, \<open>numpy\<close>. The default \<open>dtype\<close> of \<open>generate_random_int\<close> is
  \<open>torch.int64\<close>. The generator is changed in place, so its last state is returned too.
\<close>

definition set_global_random_state ::
  "('dp, 'q, 'g) collaborators \<Rightarrow> 'g \<Rightarrow> ('dp, 'g) event list \<times> 'g" where
  "set_global_random_state env seed_generator =
    (let (py_seed, g1) = generate_random_int env seed_generator int64;
         (torch_seed, g2) = generate_random_int env g1 int64
     in if HAS_NUMPY env then
          (let (np_seed, g3) = generate_random_int env g2 int32;
               np_seed = (if np_seed < 0 then 2 ^ 32 + np_seed else np_seed)
           in ([RandomSeed py_seed, TorchManualSeed torch_seed, NumpyRandomSeed np_seed], g3))
        else ([RandomSeed py_seed, TorchManualSeed torch_seed], g2))"

text \<open>
  \<open>dispatch_process_reset_fn\<close> is what worker 0 sends to the dispatching process; it
  seeds with the shared seed alone and never fails.
\<close>

definition dispatch_process_reset_fn ::
  "('dp, 'q, 'g) collaborators \<Rightarrow> 'dp \<Rightarrow> WorkerInfo \<Rightarrow> DistInfo \<Rightarrow> 'dp \<times> ('dp, 'g) event list" where
  "dispatch_process_reset_fn env datapipe worker_info dist_info =
    (let worker_seed_generator = manual_seed env (Generator env) (shared_seed dist_info);
         tr = [GeneratorManualSeed (shared_seed dist_info),
               ApplyRandomSeed datapipe worker_seed_generator];
         worker_seed_generator = apply_random_seed env datapipe worker_seed_generator
     in (datapipe, tr @ fst (set_global_random_state env worker_seed_generator)))"

definition process_reset_fn ::
  "('dp, 'q, 'g) collaborators \<Rightarrow> 'dp \<Rightarrow> WorkerInfo \<Rightarrow> DistInfo
     \<Rightarrow> ('dp \<Rightarrow> WorkerInfo \<Rightarrow> 'dp) option \<Rightarrow> (error + 'dp) \<times> ('dp, 'g) event list" where
  "process_reset_fn env datapipe worker_info dist_info custom_reset_fn =
    (let graph = traverse_dps env datapipe;
         dispatch_process_consumer_dps = find_dps env graph IterateQueueDataPipes
     in if length dispatch_process_consumer_dps > 0 \<and> length dispatch_process_consumer_dps \<noteq> 1
        then (Inl (AssertionError 162), [])
        else
          (let tr_reset =
                 (if length dispatch_process_consumer_dps > 0 \<and> worker_id worker_info = 0
                  then [ResetEpoch (dispatch_process_consumer_dps ! 0) dist_info] else []);
               worker_seed_generator = manual_seed env (Generator env) (shared_seed dist_info);
               tr_graph = [GeneratorManualSeed (shared_seed dist_info),
                           ApplyRandomSeed datapipe worker_seed_generator];
               worker_seed_generator = apply_random_seed env datapipe worker_seed_generator;
               global_worker_id = worker_id worker_info * world_size dist_info + rank dist_info;
               worker_seed_generator =
                 manual_seed env worker_seed_generator (shared_seed dist_info + global_worker_id);
               tr_seed = [GeneratorManualSeed (shared_seed dist_info + global_worker_id)];
               tr = tr_reset @ tr_graph @ tr_seed
                      @ fst (set_global_random_state env worker_seed_generator)
           in case custom_reset_fn of
                None \<Rightarrow> (Inr datapipe, tr)
              | Some f \<Rightarrow>
                  (let datapipe = f datapipe worker_info
                   in if isinstance env datapipe IterDataPipe \<or> isinstance env datapipe MapDataPipe
                      then (Inr datapipe, tr)
                      else (Inl (AssertionError 187), tr))))"

section \<open>Data model and function of \<open>torcharrow/velox_rt/column.py\<close>\<close>

text \<open>
  A column object has the two attributes that \<open>ColumnFromVelox\<close> declares, \<open>_data\<close> and
  \<open>_finialized\<close> (an identifier cannot start with an underscore here), and whatever else
  its class gives it, which is the extension part of the record. A scope is the object
  whose method \<open>Column(dtype=..., to=...)\<close> makes the column.
\<close>

record 'b column =
  col_data :: 'b
  col_finialized :: bool

record ('dt, 'dv, 'c) Scope =
  Column :: "'dt \<Rightarrow> 'dv \<Rightarrow> 'c"

definition from_velox ::
  "('dt, 'dv, ('b, 'm) column_scheme) Scope \<Rightarrow> 'dv \<Rightarrow> 'dt \<Rightarrow> 'b \<Rightarrow> bool \<Rightarrow> ('b, 'm) column_scheme" where
  "from_velox scope device dtype data finialized =
    (let col = Column scope dtype device;
         col = col\<lparr>col_data := data\<rparr>;
         col = col\<lparr>col_finialized := finialized\<rparr>
     in col)"

section \<open>Reading the events\<close>

text \<open>
  The theorems speak about kinds of events: the messages sent to the dispatching
  process, the seeding of the graph, the seeding of the three process-wide random
  number generators, and the seeds given to the local generator.
\<close>

fun is_reset_epoch :: "('dp, 'g) event \<Rightarrow> bool" where
  "is_reset_epoch (ResetEpoch c d) = True"
| "is_reset_epoch _ = False"

fun is_graph_seed :: "('dp, 'g) event \<Rightarrow> bool" where
  "is_graph_seed (ApplyRandomSeed dp g) = True"
| "is_graph_seed _ = False"

fun is_global_seed :: "('dp, 'g) event \<Rightarrow> bool" where
  "is_global_seed (RandomSeed s) = True"
| "is_global_seed (TorchManualSeed s) = True"
| "is_global_seed (NumpyRandomSeed s) = True"
| "is_global_seed _ = False"

fun manual_seeds :: "('dp, 'g) event list \<Rightarrow> int list" where
  "manual_seeds [] = []"
| "manual_seeds (GeneratorManualSeed s # es) = s # manual_seeds es"
| "manual_seeds (e # es) = manual_seeds es"

section \<open>Concrete collaborators\<close>

text \<open>
  To run the functions on concrete inputs the collaborators must be concrete too.
  Objects and queues are numbers. The graph of a DataPipe has that DataPipe as its only
  entry; \<open>find_dps\<close> answers with the given lists of marked nodes; the replicable
  branches are the objects 1 and 2; the stand-in that is built is the object 100; the
  objects below 1000 are instances of \<open>IterDataPipe\<close> and no object is a
  \<open>MapDataPipe\<close>. A generator state is the seed it was last given and the number of
  draws made since; the \<open>n\<close>-th draw after seed \<open>s\<close> is \<open>7 * s + n + 1\<close> for
  \<open>int64\<close> and \<open>- s - n\<close> for \<open>int32\<close>.
\<close>

definition example_env :: "nat list \<Rightarrow> nat list \<Rightarrow> bool \<Rightarrow> (nat, nat, int \<times> nat) collaborators" where
  "example_env dummies consumers numpy =
    \<lparr> traverse_dps = (\<lambda>dp. DataPipeGraph [(int dp, dp, DataPipeGraph [])]),
      find_dps = (\<lambda>g c. case c of DummyIterDataPipe \<Rightarrow> dummies
                                   | IterateQueueDataPipes \<Rightarrow> consumers | _ \<Rightarrow> []),
      find_replicable_branches = (\<lambda>g. [1, 2]),
      replace_dp = (\<lambda>g old new. g),
      new_IterateQueueDataPipes = (\<lambda>ws. 100),
      isinstance = (\<lambda>dp c. c = IterDataPipe \<and> dp < 1000),
      Generator = (0, 0),
      manual_seed = (\<lambda>g s. (s, 0)),
      generate_random_int = (\<lambda>(s, n) dt.
         ((case dt of int64 \<Rightarrow> 7 * s + int n + 1 | int32 \<Rightarrow> - s - int n), (s, Suc n))),
      apply_random_seed = (\<lambda>dp (s, n). (s, Suc n)),
      HAS_NUMPY = numpy \<rparr>"

section \<open>Auxiliary facts\<close>

lemma manual_seeds_append: "manual_seeds (xs @ ys) = manual_seeds xs @ manual_seeds ys"
  by (induction xs rule: manual_seeds.induct) simp_all

lemma set_global_random_state_shape:
  "\<exists>py t rest. fst (set_global_random_state env g) = RandomSeed py # TorchManualSeed t # rest
     \<and> (rest = [] \<or> (\<exists>n. rest = [NumpyRandomSeed n]))"
  by (simp add: set_global_random_state_def Let_def split: prod.splits)

lemma set_global_random_state_kinds:
  "filter is_global_seed (fst (set_global_random_state env g)) = fst (set_global_random_state env g)"
  "filter is_reset_epoch (fst (set_global_random_state env g)) = []"
  "filter is_graph_seed (fst (set_global_random_state env g)) = []"
  "manual_seeds (fst (set_global_random_state env g)) = []"
  using set_global_random_state_shape [of env g] by auto

text \<open>A result that is passed on unchanged, as the first stage of \<open>process_init_fn\<close> is
  when there is no custom function.\<close>

lemma result_case_id:
  "(case x of (Inl e, tr) \<Rightarrow> (Inl e, tr) | (Inr d, tr) \<Rightarrow> (Inr d, tr)) = x"
  by (simp split: prod.split sum.split)

text \<open>The events of \<open>process_init_fn\<close>, whatever its result.\<close>

lemma process_init_fn_events:
  "snd (process_init_fn env datapipe worker_info custom_init_fn req res) =
    (if length (find_dps env (traverse_dps env datapipe) DummyIterDataPipe) = 0 then
       [ApplySharding datapipe (num_workers worker_info) (worker_id worker_info) MULTIPROCESSING]
     else if length (find_dps env (traverse_dps env datapipe) DummyIterDataPipe) \<noteq> 1
             \<or> (req = None \<and> res = None) then []
     else map (\<lambda>dp. ApplySharding dp (num_workers worker_info) (worker_id worker_info)
                       MULTIPROCESSING)
            (find_replicable_branches env (traverse_dps env datapipe))
          @ [ReplaceDp (find_dps env (traverse_dps env datapipe) DummyIterDataPipe ! 0)
               (new_IterateQueueDataPipes env
                  [QueueWrapper (IterDataPipeQueueProtocolClient req res)])])"
  unfolding process_init_fn_def Let_def
  by (cases custom_init_fn)
     (auto split: prod.split sum.split DataPipeGraph.split list.split)

text \<open>Once the call without a custom function returns a DataPipe, the call with one
  differs only in the last step.\<close>

lemma process_init_fn_custom_stage:
  assumes "process_init_fn env datapipe worker_info None req res = (Inr dp, tr)"
  shows "process_init_fn env datapipe worker_info (Some f) req res
        = (if isinstance env (f dp worker_info) IterDataPipe
              \<or> isinstance env (f dp worker_info) MapDataPipe
           then Inr (f dp worker_info) else Inl (AssertionError 103), tr)"
  using assms unfolding process_init_fn_def Let_def option.case result_case_id
  by (elim ssubst) simp

text \<open>The two ways through \<open>process_reset_fn\<close>: the assertion of line 162 fails, or
  the whole body runs.\<close>

lemma process_reset_fn_failing:
  "1 < length (find_dps env (traverse_dps env datapipe) IterateQueueDataPipes) \<Longrightarrow>
   process_reset_fn env datapipe worker_info dist_info custom_reset_fn
     = (Inl (AssertionError 162), [])"
  by (auto simp: process_reset_fn_def Let_def)

lemma process_reset_fn_passing:
  assumes "length (find_dps env (traverse_dps env datapipe) IterateQueueDataPipes) \<le> 1"
  shows "process_reset_fn env datapipe worker_info dist_info custom_reset_fn =
    ((case custom_reset_fn of
        None \<Rightarrow> Inr datapipe
      | Some f \<Rightarrow>
          if isinstance env (f datapipe worker_info) IterDataPipe
             \<or> isinstance env (f datapipe worker_info) MapDataPipe
          then Inr (f datapipe worker_info) else Inl (AssertionError 187)),
     (if length (find_dps env (traverse_dps env datapipe) IterateQueueDataPipes) = 1
           \<and> worker_id worker_info = 0
      then [ResetEpoch (find_dps env (traverse_dps env datapipe) IterateQueueDataPipes ! 0) dist_info]
      else [])
     @ [GeneratorManualSeed (shared_seed dist_info),
        ApplyRandomSeed datapipe (manual_seed env (Generator env) (shared_seed dist_info)),
        GeneratorManualSeed
          (shared_seed dist_info + (worker_id worker_info * world_size dist_info + rank dist_info))]
     @ fst (set_global_random_state env
              (manual_seed env
                 (apply_random_seed env datapipe
                    (manual_seed env (Generator env) (shared_seed dist_info)))
                 (shared_seed dist_info
                    + (worker_id worker_info * world_size dist_info + rank dist_info)))))"
proof -
  have "find_dps env (traverse_dps env datapipe) IterateQueueDataPipes = []
        \<or> length (find_dps env (traverse_dps env datapipe) IterateQueueDataPipes) = 1"
    using assms by (cases "find_dps env (traverse_dps env datapipe) IterateQueueDataPipes") auto
  then show ?thesis
    by (cases custom_reset_fn) (auto simp: process_reset_fn_def Let_def)
qed

lemma process_reset_fn_custom_stage:
  assumes "process_reset_fn env datapipe worker_info dist_info None = (Inr dp, tr)"
  shows "process_reset_fn env datapipe worker_info dist_info (Some f)
        = (if isinstance env (f dp worker_info) IterDataPipe
              \<or> isinstance env (f dp worker_info) MapDataPipe
           then Inr (f dp worker_info) else Inl (AssertionError 187), tr)"
proof (cases "1 < length (find_dps env (traverse_dps env datapipe) IterateQueueDataPipes)")
  case True
  then show ?thesis using assms by (simp add: process_reset_fn_failing)
next
  case False
  then have le: "length (find_dps env (traverse_dps env datapipe) IterateQueueDataPipes) \<le> 1"
    by simp
  have "process_reset_fn env datapipe worker_info dist_info (Some f)
          = (if isinstance env (f datapipe worker_info) IterDataPipe
                \<or> isinstance env (f datapipe worker_info) MapDataPipe
             then Inr (f datapipe worker_info) else Inl (AssertionError 187),
             snd (process_reset_fn env datapipe worker_info dist_info None))"
    by (simp add: process_reset_fn_passing [OF le])
  moreover from assms have "dp = datapipe"
    by (simp add: process_reset_fn_passing [OF le])
  moreover from assms have "snd (process_reset_fn env datapipe worker_info dist_info None) = tr"
    by simp
  ultimately show ?thesis by simp
qed

lemma process_reset_fn_manual_seeds:
  assumes "length (find_dps env (traverse_dps env datapipe) IterateQueueDataPipes) \<le> 1"
  shows "manual_seeds (snd (process_reset_fn env datapipe worker_info dist_info custom_reset_fn))
           = [shared_seed dist_info,
              shared_seed dist_info
                + (worker_id worker_info * world_size dist_info + rank dist_info)]"
  using assms
  by (simp add: process_reset_fn_passing manual_seeds_append set_global_random_state_kinds)

text \<open>A worker id and a rank below the world size are recovered from
  \<open>worker_id * world_size + rank\<close>, as quotient and remainder.\<close>

lemma global_worker_id_inj:
  fixes W :: int
  assumes "0 \<le> r1" "r1 < W" "0 \<le> r2" "r2 < W" "w1 * W + r1 = w2 * W + r2"
  shows "w1 = w2 \<and> r1 = r2"
proof -
  have W: "0 < W" using assms(1,2) by simp
  have d1: "(w1 * W + r1) div W = w1" using assms(1,2) W by simp
  have d2: "(w2 * W + r2) div W = w2" using assms(3,4) W by simp
  from d1 d2 assms(5) have w: "w1 = w2" by simp
  with assms(5) show ?thesis by simp
qed

section \<open>The assertions of \<open>process_init_fn\<close>\<close>

text \<open>
  Claim C3. \<open>process_init_fn\<close> raises an assertion failure whenever dispatch queues are
  given and the graph has no non-replicable branch (line 81), and whenever the graph has
  more than one non-replicable branch (line 86). A call gets past the three assertions
  of the sharding stage, with both queues given, exactly when there is one such branch,
  and, with both queues absent, exactly when there is none. A call that gets past them
  may still fail later, in the check of the custom function.
\<close>

theorem process_init_fn_branch_assertions:
  assumes "non_replicable_dp = find_dps env (traverse_dps env datapipe) DummyIterDataPipe"
    and "r = fst (process_init_fn env datapipe worker_info custom_init_fn req res)"
    and "passes = (r \<notin> {Inl (AssertionError 81), Inl (AssertionError 86), Inl (AssertionError 87)})"
  shows "(\<not> (req = None \<and> res = None) \<and> length non_replicable_dp = 0
            \<longrightarrow> r = Inl (AssertionError 81))
       \<and> (1 < length non_replicable_dp \<longrightarrow> r = Inl (AssertionError 86))
       \<and> (req \<noteq> None \<and> res \<noteq> None \<longrightarrow> (passes \<longleftrightarrow> length non_replicable_dp = 1))
       \<and> (req = None \<and> res = None \<longrightarrow> (passes \<longleftrightarrow> length non_replicable_dp = 0))"
  using assms
  by (auto simp: process_init_fn_def Let_def split: DataPipeGraph.splits list.splits option.splits)

text \<open>
  The four parts at concrete inputs: both queues and no marked node, both queues and two
  marked nodes, both queues and one marked node, no queue and no marked node.
\<close>

theorem process_init_fn_branch_assertions_witness:
  "fst (process_init_fn (example_env [] [] True) 0 \<lparr>num_workers = 2, worker_id = 1\<rparr>
          None (Some 1) (Some 2))
     = Inl (AssertionError 81)
   \<and> fst (process_init_fn (example_env [5, 6] [] True) 0 \<lparr>num_workers = 2, worker_id = 1\<rparr>
          None (Some 1) (Some 2))
     = Inl (AssertionError 86)
   \<and> fst (process_init_fn (example_env [5] [] True) 0 \<lparr>num_workers = 2, worker_id = 1\<rparr>
          None (Some 1) (Some 2))
     \<notin> {Inl (AssertionError 81), Inl (AssertionError 86), Inl (AssertionError 87)}
   \<and> fst (process_init_fn (example_env [] [] True) 0 \<lparr>num_workers = 2, worker_id = 1\<rparr>
          None None None)
     \<notin> {Inl (AssertionError 81), Inl (AssertionError 86), Inl (AssertionError 87)}"
  using process_init_fn_branch_assertions
          [where env = "example_env [] [] True" and datapipe = 0 and req = "Some (1::nat)"
             and res = "Some (2::nat)" and worker_info = "\<lparr>num_workers = 2, worker_id = 1\<rparr>"
             and custom_init_fn = None, OF refl refl refl]
        process_init_fn_branch_assertions
          [where env = "example_env [5, 6] [] True" and datapipe = 0 and req = "Some (1::nat)"
             and res = "Some (2::nat)" and worker_info = "\<lparr>num_workers = 2, worker_id = 1\<rparr>"
             and custom_init_fn = None, OF refl refl refl]
        process_init_fn_branch_assertions
          [where env = "example_env [5] [] True" and datapipe = 0 and req = "Some (1::nat)"
             and res = "Some (2::nat)" and worker_info = "\<lparr>num_workers = 2, worker_id = 1\<rparr>"
             and custom_init_fn = None, OF refl refl refl]
        process_init_fn_branch_assertions
          [where env = "example_env [] [] True" and datapipe = 0 and req = "None :: nat option"
             and res = "None :: nat option"
             and worker_info = "\<lparr>num_workers = 2, worker_id = 1\<rparr>"
             and custom_init_fn = None, OF refl refl refl]
  by (simp add: example_env_def)

text \<open>
  Claim C2 says that a call with exactly one of the two queues raises an assertion
  failure. With one non-replicable branch in the graph, a request queue and no response
  queue, the assertion of line 87 (\<open>not (req is None and res is None)\<close>) holds, the
  client is built with \<open>None\<close> as its response queue, and the call returns a DataPipe.
\<close>

theorem process_init_fn_one_queue:
  "process_init_fn (example_env [5] [] True) 0 \<lparr>num_workers = 2, worker_id = 1\<rparr>
       None (Some 1) None
     = (Inr 0, [ApplySharding 1 2 1 MULTIPROCESSING, ApplySharding 2 2 1 MULTIPROCESSING,
                ReplaceDp 5 100])"
  by (simp add: process_init_fn_def example_env_def Let_def)

section \<open>The two sharding paths of \<open>process_init_fn\<close>\<close>

text \<open>
  Claim C4 as stated says that whenever a non-replicable node exists the replicable
  branches are sharded and the node is replaced. With one such node and no queue the
  assertion of line 87 fails first: nothing is sharded and nothing is replaced.
\<close>

theorem sharding_paths_counterexample:
  "find_dps (example_env [5] [] True) (traverse_dps (example_env [5] [] True) 0) DummyIterDataPipe
     = [5]
   \<and> find_replicable_branches (example_env [5] [] True) (traverse_dps (example_env [5] [] True) 0)
     = [1, 2]
   \<and> process_init_fn (example_env [5] [] True) 0 \<lparr>num_workers = 2, worker_id = 1\<rparr> None None None
     = (Inl (AssertionError 87), [])"
  by (simp add: process_init_fn_def example_env_def Let_def)

text \<open>
  Claim C4, amended. The path taken depends only on whether the traversed graph has a
  non-replicable node. If it has none, multiprocessing sharding is applied to the whole
  DataPipe and nothing else happens to the graph. If it has exactly one and both queues
  are given, sharding is applied to the replicable branches, in their order, and then the
  node is replaced by the queue-backed DataPipe built from the two queues. If it has more
  than one, or has some and both queues are absent, the call fails on the assertion of
  line 86 or 87 before any sharding or replacement.
\<close>

theorem sharding_paths:
  assumes "graph = traverse_dps env datapipe"
    and "non_replicable_dp = find_dps env graph DummyIterDataPipe"
    and "R = process_init_fn env datapipe worker_info custom_init_fn req res"
    and "shard = (\<lambda>dp. ApplySharding dp (num_workers worker_info) (worker_id worker_info)
                          MULTIPROCESSING)"
  shows "(non_replicable_dp = [] \<longrightarrow> snd R = [shard datapipe])
       \<and> (length non_replicable_dp = 1 \<and> req \<noteq> None \<and> res \<noteq> None \<longrightarrow>
            snd R = map shard (find_replicable_branches env graph)
                    @ [ReplaceDp (non_replicable_dp ! 0)
                         (new_IterateQueueDataPipes env
                            [QueueWrapper (IterDataPipeQueueProtocolClient req res)])])
       \<and> (non_replicable_dp \<noteq> [] \<and> (length non_replicable_dp \<noteq> 1 \<or> (req = None \<and> res = None)) \<longrightarrow>
            snd R = [] \<and> (fst R = Inl (AssertionError 86) \<or> fst R = Inl (AssertionError 87)))"
proof -
  have e: "fst R = Inl (AssertionError 86)"
    if "non_replicable_dp \<noteq> []" and "length non_replicable_dp \<noteq> 1"
    using that assms(1-3) by (auto simp: process_init_fn_def Let_def)
  have f: "fst R = Inl (AssertionError 87)"
    if "length non_replicable_dp = 1" and "req = None \<and> res = None"
    using that assms(1-3) by (auto simp: process_init_fn_def Let_def)
  have s: "snd R =
    (if length non_replicable_dp = 0 then [shard datapipe]
     else if length non_replicable_dp \<noteq> 1 \<or> (req = None \<and> res = None) then []
     else map shard (find_replicable_branches env graph)
          @ [ReplaceDp (non_replicable_dp ! 0)
               (new_IterateQueueDataPipes env
                  [QueueWrapper (IterDataPipeQueueProtocolClient req res)])])"
    using assms by (simp only: process_init_fn_events)
  show ?thesis
  proof (intro conjI impI)
    assume "non_replicable_dp = []"
    then show "snd R = [shard datapipe]" by (simp add: s)
  next
    assume "length non_replicable_dp = 1 \<and> req \<noteq> None \<and> res \<noteq> None"
    then show "snd R = map shard (find_replicable_branches env graph)
                    @ [ReplaceDp (non_replicable_dp ! 0)
                         (new_IterateQueueDataPipes env
                            [QueueWrapper (IterDataPipeQueueProtocolClient req res)])]"
      by (simp add: s)
  next
    assume a: "non_replicable_dp \<noteq> []
               \<and> (length non_replicable_dp \<noteq> 1 \<or> (req = None \<and> res = None))"
    then show "snd R = []" by (auto simp: s)
    from a show "fst R = Inl (AssertionError 86) \<or> fst R = Inl (AssertionError 87)"
      using e f by blast
  qed
qed

text \<open>
  The three cases at concrete inputs: no marked node, one marked node with both queues,
  one marked node without queues.
\<close>

theorem sharding_paths_witness:
  "snd (process_init_fn (example_env [] [] True) 0 \<lparr>num_workers = 2, worker_id = 1\<rparr>
          None None None)
     = [ApplySharding 0 2 1 MULTIPROCESSING]
   \<and> snd (process_init_fn (example_env [5] [] True) 0 \<lparr>num_workers = 2, worker_id = 1\<rparr>
            None (Some 1) (Some 2))
     = [ApplySharding 1 2 1 MULTIPROCESSING, ApplySharding 2 2 1 MULTIPROCESSING, ReplaceDp 5 100]
   \<and> snd (process_init_fn (example_env [5] [] True) 0 \<lparr>num_workers = 2, worker_id = 1\<rparr>
            None None None) = []
   \<and> fst (process_init_fn (example_env [5] [] True) 0 \<lparr>num_workers = 2, worker_id = 1\<rparr>
            None None None) \<in> {Inl (AssertionError 86), Inl (AssertionError 87)}"
  using sharding_paths
          [where env = "example_env [] [] True" and datapipe = 0
             and worker_info = "\<lparr>num_workers = 2, worker_id = 1\<rparr>"
             and custom_init_fn = None and req = None and res = None, OF refl refl refl refl]
        sharding_paths
          [where env = "example_env [5] [] True" and datapipe = 0
             and worker_info = "\<lparr>num_workers = 2, worker_id = 1\<rparr>"
             and custom_init_fn = None and req = "Some 1" and res = "Some 2",
           OF refl refl refl refl]
        sharding_paths
          [where env = "example_env [5] [] True" and datapipe = 0
             and worker_info = "\<lparr>num_workers = 2, worker_id = 1\<rparr>"
             and custom_init_fn = None and req = None and res = None, OF refl refl refl refl]
  by (simp add: example_env_def)

section \<open>The check of a custom function's result\<close>

text \<open>
  Claim C8. A custom function is called only in a call that gets that far, which is a
  call that returns a DataPipe \<open>dp\<close> when no custom function is given; the custom
  function is then applied to \<open>dp\<close>. In \<open>process_init_fn\<close> and in \<open>process_reset_fn\<close>
  alike, if what it returns is neither an \<open>IterDataPipe\<close> nor a \<open>MapDataPipe\<close> the call
  raises an assertion failure (line 103, line 187), and otherwise what it returns is the
  result of the call. The events are those of the call without a custom function.
\<close>

theorem custom_fn_return_checked:
  "(process_init_fn env datapipe worker_info None req res = (Inr dp, tr) \<longrightarrow>
      process_init_fn env datapipe worker_info (Some custom_init_fn) req res
        = (if isinstance env (custom_init_fn dp worker_info) IterDataPipe
              \<or> isinstance env (custom_init_fn dp worker_info) MapDataPipe
           then Inr (custom_init_fn dp worker_info) else Inl (AssertionError 103), tr))
   \<and> (process_reset_fn env datapipe worker_info dist_info None = (Inr dp', tr') \<longrightarrow>
      process_reset_fn env datapipe worker_info dist_info (Some custom_reset_fn)
        = (if isinstance env (custom_reset_fn dp' worker_info) IterDataPipe
              \<or> isinstance env (custom_reset_fn dp' worker_info) MapDataPipe
           then Inr (custom_reset_fn dp' worker_info) else Inl (AssertionError 187), tr'))"
  using process_init_fn_custom_stage [of env datapipe worker_info req res dp tr custom_init_fn]
        process_reset_fn_custom_stage
          [of env datapipe worker_info dist_info dp' tr' custom_reset_fn]
  by blast

text \<open>
  With the concrete collaborators, a custom function that returns the object 1000 (not a
  DataPipe) fails the check and one that returns the object 3 passes it, in both functions.
\<close>

theorem custom_fn_return_checked_witness:
  "process_init_fn (example_env [5] [] True) 0 \<lparr>num_workers = 2, worker_id = 1\<rparr>
       (Some (\<lambda>dp wi. dp + 1000)) (Some 1) (Some 2)
     = (Inl (AssertionError 103),
        [ApplySharding 1 2 1 MULTIPROCESSING, ApplySharding 2 2 1 MULTIPROCESSING, ReplaceDp 5 100])
   \<and> process_init_fn (example_env [5] [] True) 0 \<lparr>num_workers = 2, worker_id = 1\<rparr>
       (Some (\<lambda>dp wi. dp + 3)) (Some 1) (Some 2)
     = (Inr 3,
        [ApplySharding 1 2 1 MULTIPROCESSING, ApplySharding 2 2 1 MULTIPROCESSING, ReplaceDp 5 100])
   \<and> process_reset_fn (example_env [] [] False) 0 \<lparr>num_workers = 2, worker_id = 1\<rparr>
       \<lparr>shared_seed = 10, world_size = 1, rank = 0\<rparr> (Some (\<lambda>dp wi. dp + 1000))
     = (Inl (AssertionError 187),
        [GeneratorManualSeed 10, ApplyRandomSeed 0 (10, 0), GeneratorManualSeed 11,
         RandomSeed 78, TorchManualSeed 79])
   \<and> process_reset_fn (example_env [] [] False) 0 \<lparr>num_workers = 2, worker_id = 1\<rparr>
       \<lparr>shared_seed = 10, world_size = 1, rank = 0\<rparr> (Some (\<lambda>dp wi. dp + 3))
     = (Inr 3,
        [GeneratorManualSeed 10, ApplyRandomSeed 0 (10, 0), GeneratorManualSeed 11,
         RandomSeed 78, TorchManualSeed 79])"
proof -
  have i: "process_init_fn (example_env [5] [] True) 0 \<lparr>num_workers = 2, worker_id = 1\<rparr>
             None (Some 1) (Some 2)
           = (Inr 0, [ApplySharding 1 2 1 MULTIPROCESSING, ApplySharding 2 2 1 MULTIPROCESSING,
                      ReplaceDp 5 100])"
    by (simp add: process_init_fn_def example_env_def Let_def)
  have r: "process_reset_fn (example_env [] [] False) 0 \<lparr>num_workers = 2, worker_id = 1\<rparr>
             \<lparr>shared_seed = 10, world_size = 1, rank = 0\<rparr> None
           = (Inr 0, [GeneratorManualSeed 10, ApplyRandomSeed 0 (10, 0), GeneratorManualSeed 11,
                      RandomSeed 78, TorchManualSeed 79])"
    by (simp add: process_reset_fn_def set_global_random_state_def example_env_def Let_def)
  have a: "isinstance (example_env [5] [] True) 1000 IterDataPipe = False"
          "isinstance (example_env [5] [] True) 1000 MapDataPipe = False"
          "isinstance (example_env [5] [] True) 3 IterDataPipe = True"
          "isinstance (example_env [] [] False) 1000 IterDataPipe = False"
          "isinstance (example_env [] [] False) 1000 MapDataPipe = False"
          "isinstance (example_env [] [] False) 3 IterDataPipe = True"
    by (simp_all add: example_env_def)
  show ?thesis
    using custom_fn_return_checked
            [where env = "example_env [5] [] True" and datapipe = 0
               and worker_info = "\<lparr>num_workers = 2, worker_id = 1\<rparr>"
               and req = "Some 1" and res = "Some 2" and custom_init_fn = "\<lambda>dp wi. dp + 1000",
             THEN conjunct1, rule_format, OF i]
          custom_fn_return_checked
            [where env = "example_env [5] [] True" and datapipe = 0
               and worker_info = "\<lparr>num_workers = 2, worker_id = 1\<rparr>"
               and req = "Some 1" and res = "Some 2" and custom_init_fn = "\<lambda>dp wi. dp + 3",
             THEN conjunct1, rule_format, OF i]
          custom_fn_return_checked
            [where env = "example_env [] [] False" and datapipe = 0
               and worker_info = "\<lparr>num_workers = 2, worker_id = 1\<rparr>"
               and dist_info = "\<lparr>shared_seed = 10, world_size = 1, rank = 0\<rparr>"
               and custom_reset_fn = "\<lambda>dp wi. dp + 1000",
             THEN conjunct2, rule_format, OF r]
          custom_fn_return_checked
            [where env = "example_env [] [] False" and datapipe = 0
               and worker_info = "\<lparr>num_workers = 2, worker_id = 1\<rparr>"
               and dist_info = "\<lparr>shared_seed = 10, world_size = 1, rank = 0\<rparr>"
               and custom_reset_fn = "\<lambda>dp wi. dp + 3",
             THEN conjunct2, rule_format, OF r]
    by (simp add: a)
qed

section \<open>The seeds of \<open>process_reset_fn\<close>\<close>

text \<open>
  Claim C1 as stated says that the seed \<open>shared_seed + worker_id * world_size + rank\<close> is
  what the graph and the three process-wide generators are seeded with. For worker 1 of
  rank 0 in a world of size 1 with shared seed 10 that seed is 11, and a generator seeded
  with 11 is in state \<open>(11, 0)\<close>. The graph receives the generator in state \<open>(10, 0)\<close>,
  seeded with the shared seed, and \<open>random\<close>, \<open>torch\<close> and \<open>numpy\<close> receive 78, 79 and
  \<open>2 ^ 32 - 13\<close>, the values drawn from the generator after it was seeded with 11.
\<close>

theorem process_reset_fn_seeds_counterexample:
  "manual_seed (example_env [] [] True) (Generator (example_env [] [] True)) (10 + 1 * 1 + 0)
     = (11, 0)
   \<and> process_reset_fn (example_env [] [] True) 0 \<lparr>num_workers = 2, worker_id = 1\<rparr>
         \<lparr>shared_seed = 10, world_size = 1, rank = 0\<rparr> None
     = (Inr 0, [GeneratorManualSeed 10, ApplyRandomSeed 0 (10, 0), GeneratorManualSeed 11,
                RandomSeed 78, TorchManualSeed 79, NumpyRandomSeed 4294967283])"
  by (simp add: process_reset_fn_def set_global_random_state_def example_env_def Let_def)

text \<open>
  Claim C1, amended. In a call of \<open>process_reset_fn\<close> that gets past the assertion of
  line 162, the graph is seeded once, through \<open>apply_random_seed\<close>, with a generator
  seeded with the shared seed alone (state \<open>gs\<close>). The generator is then seeded again
  with \<open>shared_seed + worker_id * world_size + rank\<close> (state \<open>gw\<close>), and \<open>random\<close>,
  \<open>torch\<close> and, when present, \<open>numpy\<close> are seeded with the first, second and third value
  drawn from it, the third mapped into the unsigned range; they are not seeded with the
  derived seed itself. The last three hypotheses only name the draws.
\<close>

theorem process_reset_fn_seeds:
  assumes "length (find_dps env (traverse_dps env datapipe) IterateQueueDataPipes) \<le> 1"
    and "tr = snd (process_reset_fn env datapipe worker_info dist_info custom_reset_fn)"
    and "gs = manual_seed env (Generator env) (shared_seed dist_info)"
    and "gw = manual_seed env (apply_random_seed env datapipe gs)
                (shared_seed dist_info
                   + (worker_id worker_info * world_size dist_info + rank dist_info))"
    and "generate_random_int env gw int64 = (py_seed, ga)"
    and "generate_random_int env ga int64 = (torch_seed, gb)"
    and "generate_random_int env gb int32 = (np_seed, gc)"
  shows "filter is_graph_seed tr = [ApplyRandomSeed datapipe gs]
       \<and> filter is_global_seed tr
           = [RandomSeed py_seed, TorchManualSeed torch_seed]
             @ (if HAS_NUMPY env
                then [NumpyRandomSeed (if np_seed < 0 then 2 ^ 32 + np_seed else np_seed)]
                else [])"
proof -
  have "fst (set_global_random_state env gw)
          = [RandomSeed py_seed, TorchManualSeed torch_seed]
            @ (if HAS_NUMPY env
               then [NumpyRandomSeed (if np_seed < 0 then 2 ^ 32 + np_seed else np_seed)]
               else [])"
    using assms(5-7) by (simp add: set_global_random_state_def Let_def)
  then show ?thesis
    using assms(1-4) set_global_random_state_kinds [of env gw]
    by (simp add: process_reset_fn_passing)
qed

text \<open>The same worker as above, in a graph with one dispatch consumer.\<close>

theorem process_reset_fn_seeds_witness:
  "filter is_graph_seed
     (snd (process_reset_fn (example_env [] [7] True) 0 \<lparr>num_workers = 2, worker_id = 1\<rparr>
             \<lparr>shared_seed = 10, world_size = 1, rank = 0\<rparr> None))
     = [ApplyRandomSeed 0 (10, 0)]
   \<and> filter is_global_seed
     (snd (process_reset_fn (example_env [] [7] True) 0 \<lparr>num_workers = 2, worker_id = 1\<rparr>
             \<lparr>shared_seed = 10, world_size = 1, rank = 0\<rparr> None))
     = [RandomSeed 78, TorchManualSeed 79, NumpyRandomSeed 4294967283]"
  using process_reset_fn_seeds
          [where env = "example_env [] [7] True" and datapipe = 0
             and worker_info = "\<lparr>num_workers = 2, worker_id = 1\<rparr>"
             and dist_info = "\<lparr>shared_seed = 10, world_size = 1, rank = 0\<rparr>"
             and custom_reset_fn = None and gs = "(10, 0)" and gw = "(11, 0)"
             and py_seed = 78 and ga = "(11, 1)" and torch_seed = 79 and gb = "(11, 2)"
             and np_seed = "-13" and gc = "(11, 3)", OF _ refl]
  by (simp add: example_env_def)

text \<open>
  Claim C6. The seeds that a call of \<open>process_reset_fn\<close> gives to its generator are the
  shared seed \<open>S\<close> and then \<open>S + worker_id * world_size + rank\<close>. They depend on nothing
  but these four numbers: a second run with the same four, whatever its collaborators,
  DataPipe, number of workers and custom function, derives the same seeds. Both runs are
  runs that get past the assertion of line 162, since a run that fails there derives no
  seed.
\<close>

theorem worker_seed_deterministic:
  assumes "length (find_dps env (traverse_dps env datapipe) IterateQueueDataPipes) \<le> 1"
    and "length (find_dps env' (traverse_dps env' datapipe') IterateQueueDataPipes) \<le> 1"
  shows "manual_seeds (snd (process_reset_fn env datapipe \<lparr>num_workers = n, worker_id = w\<rparr>
                              \<lparr>shared_seed = S, world_size = W, rank = r\<rparr> custom_reset_fn))
           = [S, S + w * W + r]
       \<and> manual_seeds (snd (process_reset_fn env' datapipe' \<lparr>num_workers = n', worker_id = w\<rparr>
                              \<lparr>shared_seed = S, world_size = W, rank = r\<rparr> custom_reset_fn'))
           = manual_seeds (snd (process_reset_fn env datapipe \<lparr>num_workers = n, worker_id = w\<rparr>
                              \<lparr>shared_seed = S, world_size = W, rank = r\<rparr> custom_reset_fn))"
  using assms by (simp add: process_reset_fn_manual_seeds)

text \<open>Two runs for worker 3 of rank 1 in a world of size 2, with shared seed 10.\<close>

theorem worker_seed_deterministic_witness:
  "manual_seeds (snd (process_reset_fn (example_env [] [7] True) 0
                        \<lparr>num_workers = 4, worker_id = 3\<rparr>
                        \<lparr>shared_seed = 10, world_size = 2, rank = 1\<rparr> None))
     = [10, 17]
   \<and> manual_seeds (snd (process_reset_fn (example_env [] [] False) 4
                        \<lparr>num_workers = 8, worker_id = 3\<rparr>
                        \<lparr>shared_seed = 10, world_size = 2, rank = 1\<rparr> (Some (\<lambda>dp wi. 1000))))
     = manual_seeds (snd (process_reset_fn (example_env [] [7] True) 0
                        \<lparr>num_workers = 4, worker_id = 3\<rparr>
                        \<lparr>shared_seed = 10, world_size = 2, rank = 1\<rparr> None))"
  using worker_seed_deterministic
          [where env = "example_env [] [7] True" and datapipe = 0 and n = 4 and w = 3
             and S = 10 and W = 2 and r = 1 and custom_reset_fn = None
             and env' = "example_env [] [] False" and datapipe' = 4 and n' = 8
             and custom_reset_fn' = "Some (\<lambda>dp wi. 1000)"]
  by (simp add: example_env_def)

text \<open>
  Claim C7. For one shared seed and one world size, two calls of \<open>process_reset_fn\<close>
  whose pairs of worker id and rank differ, with both ranks from 0 up to but excluding the
  world size, seed their generators with different derived seeds. The worker ids need no
  bound. Both calls are calls that get past the assertion of line 162.
\<close>

theorem worker_seeds_distinct:
  assumes "0 \<le> r" and "r < W" and "0 \<le> r'" and "r' < W" and "(w, r) \<noteq> (w', r')"
    and "length (find_dps env (traverse_dps env datapipe) IterateQueueDataPipes) \<le> 1"
    and "length (find_dps env' (traverse_dps env' datapipe') IterateQueueDataPipes) \<le> 1"
  shows "last (manual_seeds (snd (process_reset_fn env datapipe \<lparr>num_workers = n, worker_id = w\<rparr>
                                    \<lparr>shared_seed = S, world_size = W, rank = r\<rparr> custom_reset_fn)))
       \<noteq> last (manual_seeds (snd (process_reset_fn env' datapipe'
                                    \<lparr>num_workers = n', worker_id = w'\<rparr>
                                    \<lparr>shared_seed = S, world_size = W, rank = r'\<rparr> custom_reset_fn')))"
proof -
  have "w * W + r \<noteq> w' * W + r'"
    using assms(1-5) global_worker_id_inj [of r W r' w w'] by auto
  then show ?thesis
    using assms(6,7) by (simp add: process_reset_fn_manual_seeds)
qed

text \<open>Worker 0 of rank 1 and worker 1 of rank 0, in a world of size 2: seeds 11 and 12.\<close>

theorem worker_seeds_distinct_witness:
  "last (manual_seeds (snd (process_reset_fn (example_env [] [7] True) 0
                              \<lparr>num_workers = 4, worker_id = 0\<rparr>
                              \<lparr>shared_seed = 10, world_size = 2, rank = 1\<rparr> None)))
   \<noteq> last (manual_seeds (snd (process_reset_fn (example_env [] [7] True) 0
                              \<lparr>num_workers = 4, worker_id = 1\<rparr>
                              \<lparr>shared_seed = 10, world_size = 2, rank = 0\<rparr> None)))"
  using worker_seeds_distinct
          [where r = 1 and W = 2 and r' = 0 and w = 0 and w' = 1
             and env = "example_env [] [7] True" and datapipe = 0
             and env' = "example_env [] [7] True" and datapipe' = 0
             and n = 4 and n' = 4 and S = 10 and custom_reset_fn = None and custom_reset_fn' = None]
  by (simp add: example_env_def)

section \<open>The reset message of \<open>process_reset_fn\<close>\<close>

text \<open>
  Claim C5 as stated says that worker 0 sends the reset message once whenever a dispatch
  consumer exists in the graph, and that every worker reseeds. With two consumers in the
  graph the assertion of line 162 fails first: worker 0 sends nothing and seeds nothing.
\<close>

theorem reset_epoch_counterexample:
  "find_dps (example_env [] [7, 8] True) (traverse_dps (example_env [] [7, 8] True) 0)
       IterateQueueDataPipes = [7, 8]
   \<and> process_reset_fn (example_env [] [7, 8] True) 0 \<lparr>num_workers = 2, worker_id = 0\<rparr>
         \<lparr>shared_seed = 10, world_size = 1, rank = 0\<rparr> None
     = (Inl (AssertionError 162), [])"
  by (simp add: process_reset_fn_def example_env_def Let_def)

text \<open>
  Claim C5, amended. In a call of \<open>process_reset_fn\<close> the reset message is sent exactly
  once when the graph has exactly one dispatch consumer and the worker id is 0, and is
  not sent otherwise, so never by a worker with another id. When the graph has at most
  one consumer, every worker, whatever its id, seeds the process-wide generators from its
  own generator \<open>gw\<close>. When the graph has more than one consumer the call fails on the
  assertion of line 162 before anything is sent or seeded.
\<close>

theorem reset_epoch_only_from_worker_zero:
  assumes "consumers = find_dps env (traverse_dps env datapipe) IterateQueueDataPipes"
    and "R = process_reset_fn env datapipe worker_info dist_info custom_reset_fn"
    and "gw = manual_seed env
                (apply_random_seed env datapipe
                   (manual_seed env (Generator env) (shared_seed dist_info)))
                (shared_seed dist_info
                   + (worker_id worker_info * world_size dist_info + rank dist_info))"
  shows "filter is_reset_epoch (snd R)
           = (if length consumers = 1 \<and> worker_id worker_info = 0
              then [ResetEpoch (consumers ! 0) dist_info] else [])
       \<and> (length consumers \<le> 1 \<longrightarrow>
            filter is_global_seed (snd R) = fst (set_global_random_state env gw)
            \<and> filter is_global_seed (snd R) \<noteq> [])
       \<and> (1 < length consumers \<longrightarrow> R = (Inl (AssertionError 162), []))"
proof (cases "length consumers \<le> 1")
  case True
  then show ?thesis
    using assms set_global_random_state_kinds [of env gw] set_global_random_state_shape [of env gw]
    by (auto simp: process_reset_fn_passing)
next
  case False
  then show ?thesis
    using assms by (simp add: process_reset_fn_failing)
qed

text \<open>
  One consumer and worker 0, one consumer and worker 1, two consumers and worker 1.
\<close>

theorem reset_epoch_only_from_worker_zero_witness:
  "filter is_reset_epoch
     (snd (process_reset_fn (example_env [] [7] True) 0 \<lparr>num_workers = 2, worker_id = 0\<rparr>
             \<lparr>shared_seed = 10, world_size = 1, rank = 0\<rparr> None))
     = [ResetEpoch 7 \<lparr>shared_seed = 10, world_size = 1, rank = 0\<rparr>]
   \<and> filter is_reset_epoch
     (snd (process_reset_fn (example_env [] [7] True) 0 \<lparr>num_workers = 2, worker_id = 1\<rparr>
             \<lparr>shared_seed = 10, world_size = 1, rank = 0\<rparr> None))
     = []
   \<and> filter is_global_seed
     (snd (process_reset_fn (example_env [] [7] True) 0 \<lparr>num_workers = 2, worker_id = 1\<rparr>
             \<lparr>shared_seed = 10, world_size = 1, rank = 0\<rparr> None))
     = [RandomSeed 78, TorchManualSeed 79, NumpyRandomSeed 4294967283]
   \<and> process_reset_fn (example_env [] [7, 8] True) 0 \<lparr>num_workers = 2, worker_id = 1\<rparr>
         \<lparr>shared_seed = 10, world_size = 1, rank = 0\<rparr> None
     = (Inl (AssertionError 162), [])"
  using reset_epoch_only_from_worker_zero
          [where env = "example_env [] [7] True" and datapipe = 0
             and worker_info = "\<lparr>num_workers = 2, worker_id = 0\<rparr>"
             and dist_info = "\<lparr>shared_seed = 10, world_size = 1, rank = 0\<rparr>"
             and custom_reset_fn = None, OF refl refl refl]
        reset_epoch_only_from_worker_zero
          [where env = "example_env [] [7] True" and datapipe = 0
             and worker_info = "\<lparr>num_workers = 2, worker_id = 1\<rparr>"
             and dist_info = "\<lparr>shared_seed = 10, world_size = 1, rank = 0\<rparr>"
             and custom_reset_fn = None, OF refl refl refl]
        reset_epoch_only_from_worker_zero
          [where env = "example_env [] [7, 8] True" and datapipe = 0
             and worker_info = "\<lparr>num_workers = 2, worker_id = 1\<rparr>"
             and dist_info = "\<lparr>shared_seed = 10, world_size = 1, rank = 0\<rparr>"
             and custom_reset_fn = None, OF refl refl refl]
  by (simp add: example_env_def set_global_random_state_def)

section \<open>The seed given to numpy\<close>

text \<open>
  Claim C9. When numpy is present and the third draw of \<open>_set_global_random_state\<close>,
  the one made with \<open>torch.int32\<close>, is a signed 32-bit integer, the seed passed to
  \<open>numpy.random.seed\<close> lies in the range from 0 up to but excluding \<open>2 ^ 32\<close>; a
  negative draw is replaced by \<open>2 ^ 32\<close> plus the draw. The hypotheses with an equation
  only name the three draws.
\<close>

theorem numpy_seed_is_uint32:
  assumes "HAS_NUMPY env"
    and "generate_random_int env seed_generator int64 = (py_seed, ga)"
    and "generate_random_int env ga int64 = (torch_seed, gb)"
    and "generate_random_int env gb int32 = (np_seed, gc)"
    and "- (2 ^ 31) \<le> np_seed" and "np_seed < 2 ^ 31"
  shows "\<exists>s. fst (set_global_random_state env seed_generator)
              = [RandomSeed py_seed, TorchManualSeed torch_seed, NumpyRandomSeed s]
           \<and> 0 \<le> s \<and> s < 2 ^ 32
           \<and> s = (if np_seed < 0 then 2 ^ 32 + np_seed else np_seed)"
  using assms by (simp add: set_global_random_state_def Let_def)

text \<open>
  With the concrete collaborators and a generator seeded with 11, the draws are 78, 79
  and \<open>-13\<close>, and numpy receives \<open>2 ^ 32 - 13\<close>.
\<close>

theorem numpy_seed_is_uint32_witness:
  "\<exists>s. fst (set_global_random_state (example_env [] [] True) (11, 0))
          = [RandomSeed 78, TorchManualSeed 79, NumpyRandomSeed s]
       \<and> 0 \<le> s \<and> s < 2 ^ 32 \<and> s = 4294967283"
  using numpy_seed_is_uint32
          [of "example_env [] [] True" "(11, 0)" 78 "(11, 1)" 79 "(11, 2)" "-13" "(11, 3)"]
  by (simp add: example_env_def)

section \<open>The column factory\<close>

text \<open>
  Claim C10. Whatever the scope, device, dtype, data and flag, \<open>from_velox\<close> returns the
  column that \<open>scope.Column(dtype=dtype, to=device)\<close> made, with \<open>_data\<close> equal to the given
  data, \<open>_finialized\<close> equal to the given flag, and every other attribute as the scope left it.
\<close>

theorem from_velox_sets_fields:
  "col_data (from_velox scope device dtype data finialized) = data \<and>
   col_finialized (from_velox scope device dtype data finialized) = finialized \<and>
   column.more (from_velox scope device dtype data finialized)
     = column.more (Column scope dtype device)"
  by (simp add: from_velox_def Let_def)

end
